theory Spec2Isabelle
  imports Main
begin

section \<open>The game state machine of \<^verbatim>\<open>game.py\<close>\<close>

text \<open>
  \<^verbatim>\<open>game.py\<close> keeps players and questions as Python objects that are shared by
  reference: a player object is in the roster \<^verbatim>\<open>Game.players\<close> and may at the same time be
  the \<^verbatim>\<open>answering_player\<close> of a question; a question object is in the board
  \<^verbatim>\<open>Game.themes_questions\<close> and may at the same time be \<^verbatim>\<open>Game.current_question\<close>.
  The model therefore has an explicit object store: a reference is an address, the
  store maps every address to the object's fields, and \<^verbatim>\<open>is\<close>, \<^verbatim>\<open>==\<close> and \<^verbatim>\<open>!=\<close> on players
  (no \<^verbatim>\<open>__eq__\<close> is defined) are equality of addresses.
\<close>

subsection \<open>Data model\<close>

type_synonym paddr = nat
type_synonym qaddr = nat
type_synonym Theme = string

text \<open>\<^verbatim>\<open>class Player\<close>: \<^verbatim>\<open>name\<close>, \<^verbatim>\<open>score\<close>.\<close>

record Player =
  name :: string
  score :: int

text \<open>
  \<^verbatim>\<open>class Question\<close>. The fields \<^verbatim>\<open>text\<close> and \<^verbatim>\<open>score\<close> are called \<open>qtext\<close> and \<open>qscore\<close>
  here (\<open>text\<close> is a keyword, \<open>score\<close> is the player's field).
\<close>

record Question =
  qtext :: string
  answer :: string
  qscore :: int
  disabled :: bool
  answering_player :: "paddr option"

text \<open>
  The exception classes nested in \<^verbatim>\<open>class Game\<close>, with their payloads, and the two
  built-in exceptions the code can raise: \<^verbatim>\<open>ValueError\<close> from \<^verbatim>\<open>list.remove\<close> and
  \<^verbatim>\<open>AttributeError\<close> from reading \<^verbatim>\<open>.score\<close> of \<^verbatim>\<open>None\<close>.
\<close>

datatype error =
    ThemeNotFound Theme
  | QuestionNotFound Theme int
  | QuestionDisabled qaddr
  | QuestionIsAlreadySelected
  | QuestionIsNotSelected
  | PlayerIsNotSelected
  | PlayerIsAlreadySelected paddr
  | ValueError
  | AttributeError

text \<open>
  \<^verbatim>\<open>class Game\<close>: the three attributes of the source, and the object store they point
  into. \<open>themes_questions\<close> is the dict as an association list in insertion order
  (\<^verbatim>\<open>.get\<close> is \<open>map_of\<close>, \<^verbatim>\<open>.items()\<close> is the list). \<open>next_paddr\<close> is the address the next
  \<^verbatim>\<open>Player(...)\<close> object gets.
\<close>

record Game =
  players :: "paddr list"
  themes_questions :: "(Theme \<times> qaddr list) list"
  current_question :: "qaddr option"
  player_at :: "paddr \<Rightarrow> Player"
  question_at :: "qaddr \<Rightarrow> Question"
  next_paddr :: paddr

text \<open>
  A method returns or raises, and in both cases the objects are left as the
  statements executed so far have made them: the result of a call is the outcome
  (\<open>Inl\<close> the exception raised, \<open>Inr\<close> the value returned) together with the state.
\<close>

type_synonym 'a result = "(error + 'a) \<times> Game"

subsection \<open>Attribute assignments\<close>

definition set_score :: "paddr \<Rightarrow> int \<Rightarrow> Game \<Rightarrow> Game" where
  "set_score p v g = g\<lparr>player_at := (player_at g)(p := (player_at g p)\<lparr>score := v\<rparr>)\<rparr>"

definition set_answering_player :: "qaddr \<Rightarrow> paddr option \<Rightarrow> Game \<Rightarrow> Game" where
  "set_answering_player q v g =
     g\<lparr>question_at := (question_at g)(q := (question_at g q)\<lparr>answering_player := v\<rparr>)\<rparr>"

definition set_disabled :: "qaddr \<Rightarrow> bool \<Rightarrow> Game \<Rightarrow> Game" where
  "set_disabled q v g =
     g\<lparr>question_at := (question_at g)(q := (question_at g q)\<lparr>disabled := v\<rparr>)\<rparr>"

subsection \<open>Methods of \<^verbatim>\<open>Question\<close>\<close>

text \<open>
  \<^verbatim>\<open>
  def accept_answer(self):
      self.answering_player.score += self.score
      self.answering_player = None
      self.disabled = True
  \<close>
\<close>

definition Question_accept_answer :: "qaddr \<Rightarrow> Game \<Rightarrow> unit result" where
  "Question_accept_answer q g =
     (case answering_player (question_at g q) of
        None \<Rightarrow> (Inl AttributeError, g)
      | Some p \<Rightarrow>
          let g1 = set_score p (score (player_at g p) + qscore (question_at g q)) g;
              g2 = set_answering_player q None g1;
              g3 = set_disabled q True g2
          in (Inr (), g3))"

text \<open>
  \<^verbatim>\<open>
  def decline_answer(self):
      self.answering_player.score -= self.score
      self.answering_player = None
  \<close>
\<close>

definition Question_decline_answer :: "qaddr \<Rightarrow> Game \<Rightarrow> unit result" where
  "Question_decline_answer q g =
     (case answering_player (question_at g q) of
        None \<Rightarrow> (Inl AttributeError, g)
      | Some p \<Rightarrow>
          let g1 = set_score p (score (player_at g p) - qscore (question_at g q)) g;
              g2 = set_answering_player q None g1
          in (Inr (), g2))"

subsection \<open>Methods of \<^verbatim>\<open>Game\<close>\<close>

text \<open>
  \<^verbatim>\<open>is_over\<close>: the nested loops return \<^verbatim>\<open>False\<close> at the first question that is not
  disabled, \<^verbatim>\<open>True\<close> when they run out.
\<close>

fun questions_all_disabled :: "Game \<Rightarrow> qaddr list \<Rightarrow> bool" where
  "questions_all_disabled g [] = True"
| "questions_all_disabled g (q # qs) =
     (if \<not> disabled (question_at g q) then False else questions_all_disabled g qs)"

fun themes_all_disabled :: "Game \<Rightarrow> (Theme \<times> qaddr list) list \<Rightarrow> bool" where
  "themes_all_disabled g [] = True"
| "themes_all_disabled g ((theme, questions) # rest) =
     (if \<not> questions_all_disabled g questions then False else themes_all_disabled g rest)"

definition is_over :: "Game \<Rightarrow> bool" where
  "is_over g = themes_all_disabled g (themes_questions g)"

text \<open>
  \<^verbatim>\<open>join\<close>: a new \<^verbatim>\<open>Player\<close> object with score 0, appended to the roster and returned.
\<close>

definition join :: "string \<Rightarrow> Game \<Rightarrow> paddr \<times> Game" where
  "join player_name g =
     (let player = next_paddr g;
          g1 = g\<lparr>player_at := (player_at g)(player := \<lparr>name = player_name, score = 0\<rparr>),
                 next_paddr := Suc player\<rparr>;
          g2 = g1\<lparr>players := players g1 @ [player]\<rparr>
      in (player, g2))"

text \<open>
  \<^verbatim>\<open>leave\<close>: \<^verbatim>\<open>self.players.remove(player)\<close> removes the first element equal to
  \<^verbatim>\<open>player\<close> and raises \<^verbatim>\<open>ValueError\<close> when there is none.
\<close>

definition leave :: "paddr \<Rightarrow> Game \<Rightarrow> unit result" where
  "leave player g =
     (if player \<in> set (players g)
      then (Inr (), g\<lparr>players := remove1 player (players g)\<rparr>)
      else (Inl ValueError, g))"

text \<open>
  \<^verbatim>\<open>select_question\<close>. The \<^verbatim>\<open>for ... else\<close> loop over the theme's questions:
  \<^verbatim>\<open>
  for question in theme_questions:
      if question.score == score:
          if question.disabled:
              raise Game.QuestionDisabled(question)
          self.current_question = question
          break
  else:
      raise Game.QuestionNotFound(theme, score)
  \<close>
\<close>

fun scan_questions :: "Theme \<Rightarrow> int \<Rightarrow> qaddr list \<Rightarrow> Game \<Rightarrow> unit result" where
  "scan_questions theme sc [] g = (Inl (QuestionNotFound theme sc), g)"
| "scan_questions theme sc (question # rest) g =
     (if qscore (question_at g question) = sc
      then (if disabled (question_at g question)
            then (Inl (QuestionDisabled question), g)
            else (Inr (), g\<lparr>current_question := Some question\<rparr>))
      else scan_questions theme sc rest g)"

text \<open>
  \<^verbatim>\<open>if not theme_questions\<close> holds for \<^verbatim>\<open>None\<close> (the theme is not a key) and for the
  empty list.
\<close>

definition select_question :: "Theme \<Rightarrow> int \<Rightarrow> Game \<Rightarrow> unit result" where
  "select_question theme sc g =
     (if current_question g \<noteq> None then (Inl QuestionIsAlreadySelected, g)
      else (case map_of (themes_questions g) theme of
              None \<Rightarrow> (Inl (ThemeNotFound theme), g)
            | Some theme_questions \<Rightarrow>
                (if theme_questions = [] then (Inl (ThemeNotFound theme), g)
                 else scan_questions theme sc theme_questions g)))"

text \<open>
  \<^verbatim>\<open>select_answering_player\<close>. A \<^verbatim>\<open>Question\<close> and a \<^verbatim>\<open>Player\<close> object are always true
  (neither \<^verbatim>\<open>__bool__\<close> nor \<^verbatim>\<open>__len__\<close> is defined), so \<^verbatim>\<open>not x\<close> is \<^verbatim>\<open>x is None\<close>.
\<close>

definition select_answering_player :: "paddr \<Rightarrow> Game \<Rightarrow> unit result" where
  "select_answering_player player g =
     (case current_question g of
        None \<Rightarrow> (Inl QuestionIsNotSelected, g)
      | Some q \<Rightarrow>
          (if answering_player (question_at g q) \<noteq> None
              \<and> answering_player (question_at g q) \<noteq> Some player
           then (Inl (PlayerIsAlreadySelected player), g)
           else (Inr (), set_answering_player q (Some player) g)))"

definition accept_answer :: "Game \<Rightarrow> unit result" where
  "accept_answer g =
     (case current_question g of
        None \<Rightarrow> (Inl QuestionIsNotSelected, g)
      | Some q \<Rightarrow>
          (if answering_player (question_at g q) = None then (Inl PlayerIsNotSelected, g)
           else (case Question_accept_answer q g of
                   (Inl e, g1) \<Rightarrow> (Inl e, g1)
                 | (Inr u, g1) \<Rightarrow> (Inr (), g1\<lparr>current_question := None\<rparr>))))"

definition decline_answer :: "Game \<Rightarrow> unit result" where
  "decline_answer g =
     (case current_question g of
        None \<Rightarrow> (Inl QuestionIsNotSelected, g)
      | Some q \<Rightarrow>
          (if answering_player (question_at g q) = None then (Inl PlayerIsNotSelected, g)
           else (case Question_decline_answer q g of
                   (Inl e, g1) \<Rightarrow> (Inl e, g1)
                 | (Inr u, g1) \<Rightarrow> (Inr (), g1))))"

definition skip_question :: "Game \<Rightarrow> unit result" where
  "skip_question g =
     (case current_question g of
        None \<Rightarrow> (Inl QuestionIsNotSelected, g)
      | Some q \<Rightarrow>
          (let g1 = set_disabled q True g
           in (Inr (), g1\<lparr>current_question := None\<rparr>)))"

subsection \<open>Sequences of calls\<close>

text \<open>
  A call of one of the seven public methods of \<^verbatim>\<open>Game\<close>. \<open>invoke\<close> is the state the
  call leaves behind, whether it returns or raises; \<open>run\<close> makes the calls of a list one
  after the other, as a caller that catches the exceptions does.
\<close>

datatype call =
    Join string
  | Leave paddr
  | SelectQuestion Theme int
  | SelectAnsweringPlayer paddr
  | AcceptAnswer
  | DeclineAnswer
  | SkipQuestion

fun invoke :: "call \<Rightarrow> Game \<Rightarrow> Game" where
  "invoke (Join player_name) g = snd (join player_name g)"
| "invoke (Leave player) g = snd (leave player g)"
| "invoke (SelectQuestion theme sc) g = snd (select_question theme sc g)"
| "invoke (SelectAnsweringPlayer player) g = snd (select_answering_player player g)"
| "invoke AcceptAnswer g = snd (accept_answer g)"
| "invoke DeclineAnswer g = snd (decline_answer g)"
| "invoke SkipQuestion g = snd (skip_question g)"

fun run :: "call list \<Rightarrow> Game \<Rightarrow> Game" where
  "run [] g = g"
| "run (c # cs) g = run cs (invoke c g)"

subsection \<open>The transport layer of \<^verbatim>\<open>app.py\<close>\<close>

text \<open>
  The handlers \<^verbatim>\<open>leave_game\<close> and \<^verbatim>\<open>select_answering_player\<close> of \<^verbatim>\<open>app.py\<close> are wrapped
  in \<^verbatim>\<open>@joined_player_only\<close>: the message carries a player key, the call is made only when
  \<^verbatim>\<open>player_key in game.players_by_key\<close>, and with the player stored under that key.
  \<^verbatim>\<open>SocketIOGame.join\<close> adds the new player to \<^verbatim>\<open>players\<close> and to \<^verbatim>\<open>players_by_key\<close>,
  \<^verbatim>\<open>SocketIOGame.leave\<close> removes it from both, so the players that have a key are the
  players of the roster; the keys themselves (random UUIDs) are left out of the model
  and the check is membership in the roster. A message that fails the check is
  answered with \<^verbatim>\<open>fail\<close> and the game is not touched. The other handlers make the call
  for every message of the game (the host key guards them, and is left out as well).
\<close>

definition joined_player_only :: "call \<Rightarrow> Game \<Rightarrow> bool" where
  "joined_player_only c g =
     (case c of
        Leave player \<Rightarrow> player \<in> set (players g)
      | SelectAnsweringPlayer player \<Rightarrow> player \<in> set (players g)
      | _ \<Rightarrow> True)"

definition handle :: "call \<Rightarrow> Game \<Rightarrow> Game" where
  "handle c g = (if joined_player_only c g then invoke c g else g)"

fun serve :: "call list \<Rightarrow> Game \<Rightarrow> Game" where
  "serve [] g = g"
| "serve (c # cs) g = serve cs (handle c g)"

subsection \<open>Predicates on game states\<close>

text \<open>All question objects of the board, theme after theme.\<close>

definition board_questions :: "Game \<Rightarrow> qaddr list" where
  "board_questions g = concat (map snd (themes_questions g))"

text \<open>
  A fresh game, as \<^verbatim>\<open>Game()\<close> followed by the assignment of a loaded board leaves it:
  no players, no current question, and no question of the board has an answering
  player (\<^verbatim>\<open>Question.__init__\<close> defaults it to \<^verbatim>\<open>None\<close>).
\<close>

definition fresh_game :: "Game \<Rightarrow> bool" where
  "fresh_game g \<longleftrightarrow>
     players g = [] \<and> current_question g = None
     \<and> (\<forall>q \<in> set (board_questions g). answering_player (question_at g q) = None)"

text \<open>
  The invariant of the data model: the current question's answering player, when
  there is one, is in the roster.
\<close>

definition answerer_in_roster :: "Game \<Rightarrow> bool" where
  "answerer_in_roster g =
     (case current_question g of
        None \<Rightarrow> True
      | Some q \<Rightarrow>
          (case answering_player (question_at g q) of
             None \<Rightarrow> True
           | Some p \<Rightarrow> p \<in> set (players g)))"

text \<open>
  \<open>leaves_answerer c g\<close>: the call \<open>c\<close> is \<open>leave\<close> of the player who is the current
  question's answering player in \<open>g\<close>. \<open>answerer_stays cs g\<close>: no call of \<open>cs\<close>, served
  from \<open>g\<close> on, is such a call at the state it is made in.
\<close>

definition leaves_answerer :: "call \<Rightarrow> Game \<Rightarrow> bool" where
  "leaves_answerer c g =
     (case c of
        Leave player \<Rightarrow>
          (case current_question g of
             None \<Rightarrow> False
           | Some q \<Rightarrow> answering_player (question_at g q) = Some player)
      | _ \<Rightarrow> False)"

fun answerer_stays :: "call list \<Rightarrow> Game \<Rightarrow> bool" where
  "answerer_stays [] g = True"
| "answerer_stays (c # cs) g = (\<not> leaves_answerer c g \<and> answerer_stays cs (handle c g))"

text \<open>
  Every question of the board that is enabled and is not the current question has no
  answering player.
\<close>

definition idle_unanswered :: "Game \<Rightarrow> bool" where
  "idle_unanswered g \<longleftrightarrow>
     (\<forall>q \<in> set (board_questions g).
        current_question g \<noteq> Some q \<and> \<not> disabled (question_at g q) \<longrightarrow>
        answering_player (question_at g q) = None)"

text \<open>
  Every player of the roster is an object that exists: its address is below the
  address of the next object. \<^verbatim>\<open>Player(...)\<close> returns an object distinct from all
  existing ones.
\<close>

definition roster_allocated :: "Game \<Rightarrow> bool" where
  "roster_allocated g \<longleftrightarrow> (\<forall>p \<in> set (players g). p < next_paddr g)"

subsection \<open>The games of \<^verbatim>\<open>tests.py\<close>\<close>

text \<open>
  \<^verbatim>\<open>setup_game_with_themes()\<close>: one theme with two questions, of score 100 and 200.
  \<open>setup_game_answering_player\<close> is that game after \<^verbatim>\<open>setup_game_players\<close>,
  \<^verbatim>\<open>setup_game_selected_question\<close> and \<^verbatim>\<open>setup_game_answering_player\<close>.
\<close>

definition setup_game_with_themes :: Game where
  "setup_game_with_themes =
     \<lparr>players = [],
      themes_questions = [(''TestTheme'', [0, 1])],
      current_question = None,
      player_at = (\<lambda>_. \<lparr>name = [], score = 0\<rparr>),
      question_at = (\<lambda>_. \<lparr>qtext = [], answer = [], qscore = 0, disabled = False,
                            answering_player = None\<rparr>)
        (0 := \<lparr>qtext = ''Test Question'', answer = ''Test Answer'', qscore = 100,
               disabled = False, answering_player = None\<rparr>,
         1 := \<lparr>qtext = ''Test Other Question'', answer = ''Test Answer'', qscore = 200,
               disabled = False, answering_player = None\<rparr>),
      next_paddr = 0\<rparr>"

definition setup_game_answering_player :: Game where
  "setup_game_answering_player =
     run [Join ''Test Player #1'', Join ''Test Player #2'', Join ''Test Player #3'',
          SelectQuestion ''TestTheme'' 100, SelectAnsweringPlayer 0]
       setup_game_with_themes"

section \<open>Properties\<close>

subsection \<open>Reading the state after an assignment\<close>

lemma set_score_simps [simp]:
  "players (set_score p v g) = players g"
  "themes_questions (set_score p v g) = themes_questions g"
  "current_question (set_score p v g) = current_question g"
  "question_at (set_score p v g) = question_at g"
  "next_paddr (set_score p v g) = next_paddr g"
  "player_at (set_score p v g) p' =
     (if p' = p then (player_at g p)\<lparr>score := v\<rparr> else player_at g p')"
  by (simp_all add: set_score_def)

lemma set_answering_player_simps [simp]:
  "players (set_answering_player q v g) = players g"
  "themes_questions (set_answering_player q v g) = themes_questions g"
  "current_question (set_answering_player q v g) = current_question g"
  "player_at (set_answering_player q v g) = player_at g"
  "next_paddr (set_answering_player q v g) = next_paddr g"
  "question_at (set_answering_player q v g) q' =
     (if q' = q then (question_at g q)\<lparr>answering_player := v\<rparr> else question_at g q')"
  by (simp_all add: set_answering_player_def)

lemma set_disabled_simps [simp]:
  "players (set_disabled q v g) = players g"
  "themes_questions (set_disabled q v g) = themes_questions g"
  "current_question (set_disabled q v g) = current_question g"
  "player_at (set_disabled q v g) = player_at g"
  "next_paddr (set_disabled q v g) = next_paddr g"
  "question_at (set_disabled q v g) q' =
     (if q' = q then (question_at g q)\<lparr>disabled := v\<rparr> else question_at g q')"
  by (simp_all add: set_disabled_def)

lemma set_answering_player_same:
  "answering_player (question_at g q) = v \<Longrightarrow> set_answering_player q v g = g"
  by (auto simp: set_answering_player_def)

lemmas method_defs =
  join_def leave_def select_question_def select_answering_player_def accept_answer_def
  decline_answer_def skip_question_def Question_accept_answer_def Question_decline_answer_def
  Let_def

lemmas fixture_defs =
  setup_game_answering_player_def setup_game_with_themes_def method_defs
  set_answering_player_def set_score_def set_disabled_def

subsection \<open>Answer resolution\<close>

text \<open>
  C2. In a game with a current question \<open>q\<close> whose answering player is \<open>p\<close>,
  \<open>decline_answer\<close> returns; afterwards the score of \<open>p\<close> is lower by exactly the score of
  \<open>q\<close>, \<open>q\<close> has no answering player, the disabled flag of \<open>q\<close> is what it was (so false
  when it was false, as it is for every question \<open>select_question\<close> has made current), and
  \<open>q\<close> is still the current question.
\<close>

theorem decline_answer_effect:
  assumes "current_question g = Some q" and "answering_player (question_at g q) = Some p"
  shows "fst (decline_answer g) = Inr ()
    \<and> score (player_at (snd (decline_answer g)) p)
        = score (player_at g p) - qscore (question_at g q)
    \<and> answering_player (question_at (snd (decline_answer g)) q) = None
    \<and> disabled (question_at (snd (decline_answer g)) q) = disabled (question_at g q)
    \<and> (\<not> disabled (question_at g q) \<longrightarrow> \<not> disabled (question_at (snd (decline_answer g)) q))
    \<and> current_question (snd (decline_answer g)) = Some q"
  using assms by (simp add: decline_answer_def Question_decline_answer_def Let_def)

theorem decline_answer_effect_witness:
  "current_question setup_game_answering_player = Some 0
   \<and> answering_player (question_at setup_game_answering_player 0) = Some 0
   \<and> \<not> disabled (question_at setup_game_answering_player 0)
   \<and> fst (decline_answer setup_game_answering_player) = Inr ()
   \<and> score (player_at (snd (decline_answer setup_game_answering_player)) 0) = - 100
   \<and> answering_player (question_at (snd (decline_answer setup_game_answering_player)) 0) = None
   \<and> \<not> disabled (question_at (snd (decline_answer setup_game_answering_player)) 0)
   \<and> current_question (snd (decline_answer setup_game_answering_player)) = Some 0"
  using decline_answer_effect [of setup_game_answering_player 0 0]
  by (simp add: fixture_defs)

text \<open>
  C3. In a game with a current question \<open>q\<close> whose answering player is \<open>p\<close>,
  \<open>accept_answer\<close> returns; afterwards the score of \<open>p\<close> is higher by exactly the score
  of \<open>q\<close>, \<open>q\<close> has no answering player, \<open>q\<close> is disabled, and there is no current
  question.
\<close>

theorem accept_answer_effect:
  assumes "current_question g = Some q" and "answering_player (question_at g q) = Some p"
  shows "fst (accept_answer g) = Inr ()
    \<and> score (player_at (snd (accept_answer g)) p)
        = score (player_at g p) + qscore (question_at g q)
    \<and> answering_player (question_at (snd (accept_answer g)) q) = None
    \<and> disabled (question_at (snd (accept_answer g)) q) = True
    \<and> current_question (snd (accept_answer g)) = None"
  using assms by (simp add: accept_answer_def Question_accept_answer_def Let_def)

theorem accept_answer_effect_witness:
  "current_question setup_game_answering_player = Some 0
   \<and> answering_player (question_at setup_game_answering_player 0) = Some 0
   \<and> fst (accept_answer setup_game_answering_player) = Inr ()
   \<and> score (player_at (snd (accept_answer setup_game_answering_player)) 0) = 100
   \<and> answering_player (question_at (snd (accept_answer setup_game_answering_player)) 0) = None
   \<and> disabled (question_at (snd (accept_answer setup_game_answering_player)) 0)
   \<and> current_question (snd (accept_answer setup_game_answering_player)) = None"
  using accept_answer_effect [of setup_game_answering_player 0 0]
  by (simp add: fixture_defs)

text \<open>
  C10. In a game with a current question \<open>q\<close> whose answering player is \<open>p\<close>,
  \<open>skip_question\<close> returns; afterwards \<open>q\<close> is disabled and still has \<open>p\<close> as its answering
  player, there is no current question, and no player object and no roster entry has
  changed.
\<close>

theorem skip_question_keeps_answerer:
  assumes "current_question g = Some q" and "answering_player (question_at g q) = Some p"
  shows "fst (skip_question g) = Inr ()
       \<and> answering_player (question_at (snd (skip_question g)) q) = Some p
       \<and> disabled (question_at (snd (skip_question g)) q)
       \<and> current_question (snd (skip_question g)) = None
       \<and> player_at (snd (skip_question g)) = player_at g
       \<and> players (snd (skip_question g)) = players g"
  using assms by (simp add: skip_question_def Let_def)

theorem skip_question_keeps_answerer_witness:
  "current_question setup_game_answering_player = Some 0
   \<and> answering_player (question_at setup_game_answering_player 0) = Some 0
   \<and> fst (skip_question setup_game_answering_player) = Inr ()
   \<and> answering_player (question_at (snd (skip_question setup_game_answering_player)) 0) = Some 0
   \<and> disabled (question_at (snd (skip_question setup_game_answering_player)) 0)
   \<and> current_question (snd (skip_question setup_game_answering_player)) = None
   \<and> score (player_at (snd (skip_question setup_game_answering_player)) 0) = 0"
  using skip_question_keeps_answerer [of setup_game_answering_player 0 0]
  by (simp add: fixture_defs)

subsection \<open>Question selection\<close>

text \<open>
  The loop of \<open>select_question\<close> stops at the first question of the list with the score
  asked for: it is \<open>find\<close>, followed by the test of the disabled flag.
\<close>

lemma scan_questions_find:
  "scan_questions theme sc qs g =
     (case find (\<lambda>q. qscore (question_at g q) = sc) qs of
        None \<Rightarrow> (Inl (QuestionNotFound theme sc), g)
      | Some q \<Rightarrow>
          if disabled (question_at g q) then (Inl (QuestionDisabled q), g)
          else (Inr (), g\<lparr>current_question := Some q\<rparr>))"
  by (induction qs) simp_all

lemma scan_questions_raise:
  "isl (fst (scan_questions theme sc qs g)) \<Longrightarrow> snd (scan_questions theme sc qs g) = g"
  by (induction qs) (simp_all split: if_splits)

lemma scan_questions_store:
  "question_at (snd (scan_questions theme sc qs g)) = question_at g"
  by (induction qs) simp_all

lemma scan_questions_frame:
  "players (snd (scan_questions theme sc qs g)) = players g"
  "themes_questions (snd (scan_questions theme sc qs g)) = themes_questions g"
  "next_paddr (snd (scan_questions theme sc qs g)) = next_paddr g"
  by (induction qs) simp_all

lemma scan_questions_current:
  "current_question (snd (scan_questions theme sc qs g)) = Some q \<Longrightarrow>
     current_question g = Some q \<or> (q \<in> set qs \<and> \<not> disabled (question_at g q))"
  by (induction qs) (auto split: if_splits)

text \<open>
  C4. \<open>select_question theme sc\<close> checks in this order. With a current question it
  raises \<open>QuestionIsAlreadySelected\<close>, whatever \<open>theme\<close> and \<open>sc\<close> are. Otherwise, when
  \<open>theme\<close> is not a key of the board or its list is empty, it raises
  \<open>ThemeNotFound theme\<close>. Otherwise it takes the first question of the theme's list
  whose score is \<open>sc\<close>: when there is none it raises \<open>QuestionNotFound theme sc\<close>, when
  that question is disabled it raises \<open>QuestionDisabled\<close> with it, and when it is enabled
  it returns with that question as the current one. In every failing case the state is
  the one before the call.
\<close>

theorem select_question_order:
  "(current_question g \<noteq> None \<longrightarrow>
      select_question theme sc g = (Inl QuestionIsAlreadySelected, g))
   \<and> (current_question g = None
        \<and> (map_of (themes_questions g) theme = None
            \<or> map_of (themes_questions g) theme = Some [])
      \<longrightarrow> select_question theme sc g = (Inl (ThemeNotFound theme), g))
   \<and> (\<forall>qs. current_question g = None \<and> map_of (themes_questions g) theme = Some qs
           \<and> qs \<noteq> []
      \<longrightarrow> select_question theme sc g =
            (case find (\<lambda>q. qscore (question_at g q) = sc) qs of
               None \<Rightarrow> (Inl (QuestionNotFound theme sc), g)
             | Some q \<Rightarrow>
                 if disabled (question_at g q) then (Inl (QuestionDisabled q), g)
                 else (Inr (), g\<lparr>current_question := Some q\<rparr>)))"
  by (auto simp: select_question_def scan_questions_find)

theorem select_question_order_witness:
  "current_question setup_game_answering_player \<noteq> None
   \<and> select_question ''InvalidTheme'' (- 100) setup_game_answering_player
       = (Inl QuestionIsAlreadySelected, setup_game_answering_player)
   \<and> current_question setup_game_with_themes = None
   \<and> map_of (themes_questions setup_game_with_themes) ''InvalidTheme'' = None
   \<and> select_question ''InvalidTheme'' 100 setup_game_with_themes
       = (Inl (ThemeNotFound ''InvalidTheme''), setup_game_with_themes)
   \<and> map_of (themes_questions setup_game_with_themes) ''TestTheme'' = Some [0, 1]
   \<and> select_question ''TestTheme'' (- 100) setup_game_with_themes
       = (Inl (QuestionNotFound ''TestTheme'' (- 100)), setup_game_with_themes)
   \<and> select_question ''TestTheme'' 200 setup_game_with_themes
       = (Inr (), setup_game_with_themes\<lparr>current_question := Some 1\<rparr>)"
  using select_question_order [of setup_game_answering_player "''InvalidTheme''" "- 100"]
    select_question_order [of setup_game_with_themes "''InvalidTheme''" 100]
    select_question_order [of setup_game_with_themes "''TestTheme''" "- 100"]
    select_question_order [of setup_game_with_themes "''TestTheme''" 200]
  by (simp add: fixture_defs)

subsection \<open>Failure leaves the state as it was\<close>

text \<open>
  C5. For each of \<open>select_question\<close>, \<open>select_answering_player\<close>, \<open>accept_answer\<close>,
  \<open>decline_answer\<close> and \<open>skip_question\<close> and every game: when the call raises, the state
  it leaves (roster, player objects, question objects, board and current question) is
  the state before the call.
\<close>

theorem raise_leaves_state:
  "(isl (fst (select_question theme sc g)) \<longrightarrow> snd (select_question theme sc g) = g)
   \<and> (isl (fst (select_answering_player p g)) \<longrightarrow> snd (select_answering_player p g) = g)
   \<and> (isl (fst (accept_answer g)) \<longrightarrow> snd (accept_answer g) = g)
   \<and> (isl (fst (decline_answer g)) \<longrightarrow> snd (decline_answer g) = g)
   \<and> (isl (fst (skip_question g)) \<longrightarrow> snd (skip_question g) = g)"
  by (auto simp: select_question_def select_answering_player_def accept_answer_def
      decline_answer_def skip_question_def Question_accept_answer_def
      Question_decline_answer_def Let_def scan_questions_raise
      split: option.splits if_splits)

theorem raise_leaves_state_witness:
  "isl (fst (select_question ''InvalidTheme'' 100 setup_game_with_themes))
   \<and> snd (select_question ''InvalidTheme'' 100 setup_game_with_themes) = setup_game_with_themes
   \<and> isl (fst (select_answering_player 2 setup_game_with_themes))
   \<and> snd (select_answering_player 2 setup_game_with_themes) = setup_game_with_themes
   \<and> isl (fst (accept_answer setup_game_with_themes))
   \<and> snd (accept_answer setup_game_with_themes) = setup_game_with_themes
   \<and> isl (fst (decline_answer setup_game_with_themes))
   \<and> snd (decline_answer setup_game_with_themes) = setup_game_with_themes
   \<and> isl (fst (skip_question setup_game_with_themes))
   \<and> snd (skip_question setup_game_with_themes) = setup_game_with_themes"
  using raise_leaves_state [of "''InvalidTheme''" 100 setup_game_with_themes 2]
  by (simp add: fixture_defs)

subsection \<open>Game over\<close>

lemma questions_all_disabled_iff:
  "questions_all_disabled g qs \<longleftrightarrow> (\<forall>q \<in> set qs. disabled (question_at g q))"
  by (induction qs) auto

lemma themes_all_disabled_iff:
  "themes_all_disabled g tqs \<longleftrightarrow>
     (\<forall>(theme, questions) \<in> set tqs. \<forall>q \<in> set questions. disabled (question_at g q))"
  by (induction tqs) (auto simp: questions_all_disabled_iff split: if_splits)

text \<open>
  C6. \<open>is_over\<close> holds exactly when every question of every theme of the board is
  disabled; so a game with an enabled question on its board is not over. (The board
  is quantified over as the list of its entries; a dict has one entry for each key.)
\<close>

theorem is_over_iff:
  "(is_over g \<longleftrightarrow>
      (\<forall>(theme, questions) \<in> set (themes_questions g).
         \<forall>q \<in> set questions. disabled (question_at g q)))
   \<and> ((\<exists>(theme, questions) \<in> set (themes_questions g).
          \<exists>q \<in> set questions. \<not> disabled (question_at g q))
        \<longrightarrow> \<not> is_over g)"
  unfolding is_over_def themes_all_disabled_iff by blast

theorem is_over_iff_witness:
  "(\<exists>(theme, questions) \<in> set (themes_questions setup_game_with_themes).
      \<exists>q \<in> set questions. \<not> disabled (question_at setup_game_with_themes q))
   \<and> \<not> is_over setup_game_with_themes
   \<and> themes_questions
         (run [SelectQuestion ''TestTheme'' 100, SkipQuestion,
               SelectQuestion ''TestTheme'' 200, SkipQuestion] setup_game_with_themes)
       = [(''TestTheme'', [0, 1])]
   \<and> disabled (question_at
         (run [SelectQuestion ''TestTheme'' 100, SkipQuestion,
               SelectQuestion ''TestTheme'' 200, SkipQuestion] setup_game_with_themes) 0)
   \<and> disabled (question_at
         (run [SelectQuestion ''TestTheme'' 100, SkipQuestion,
               SelectQuestion ''TestTheme'' 200, SkipQuestion] setup_game_with_themes) 1)
   \<and> is_over (run [SelectQuestion ''TestTheme'' 100, SkipQuestion,
                SelectQuestion ''TestTheme'' 200, SkipQuestion] setup_game_with_themes)"
  using is_over_iff [of setup_game_with_themes]
    is_over_iff [of "run [SelectQuestion ''TestTheme'' 100, SkipQuestion,
                SelectQuestion ''TestTheme'' 200, SkipQuestion] setup_game_with_themes"]
  by (simp add: fixture_defs)

subsection \<open>Answering-player arbitration\<close>

text \<open>
  C7. While a question \<open>q\<close> is current: \<open>select_answering_player p\<close> for the player \<open>p\<close>
  who is already the answering player returns and changes nothing (so doing it twice is
  doing it once); for a player \<open>p\<close> other than the answering player \<open>p0\<close> it raises
  \<open>PlayerIsAlreadySelected p\<close> and changes nothing; and when \<open>q\<close> has no answering
  player it returns with \<open>p\<close> as the answering player of \<open>q\<close>.
\<close>

theorem select_answering_player_cases:
  assumes "current_question g = Some q"
  shows "(answering_player (question_at g q) = Some p \<longrightarrow>
            select_answering_player p g = (Inr (), g))
       \<and> (\<forall>p0. answering_player (question_at g q) = Some p0 \<and> p0 \<noteq> p \<longrightarrow>
            select_answering_player p g = (Inl (PlayerIsAlreadySelected p), g))
       \<and> (answering_player (question_at g q) = None \<longrightarrow>
            fst (select_answering_player p g) = Inr ()
            \<and> answering_player (question_at (snd (select_answering_player p g)) q) = Some p
            \<and> current_question (snd (select_answering_player p g)) = Some q
            \<and> select_answering_player p (snd (select_answering_player p g))
                = (Inr (), snd (select_answering_player p g)))"
  using assms by (auto simp: select_answering_player_def set_answering_player_same)

theorem select_answering_player_cases_witness:
  "current_question setup_game_answering_player = Some 0
   \<and> answering_player (question_at setup_game_answering_player 0) = Some 0
   \<and> select_answering_player 0 setup_game_answering_player
       = (Inr (), setup_game_answering_player)
   \<and> (0::nat) \<noteq> 1
   \<and> select_answering_player 1 setup_game_answering_player
       = (Inl (PlayerIsAlreadySelected 1), setup_game_answering_player)
   \<and> current_question (run [SelectQuestion ''TestTheme'' 100] setup_game_with_themes) = Some 0
   \<and> answering_player
        (question_at (run [SelectQuestion ''TestTheme'' 100] setup_game_with_themes) 0) = None
   \<and> answering_player
        (question_at (snd (select_answering_player 2
           (run [SelectQuestion ''TestTheme'' 100] setup_game_with_themes))) 0) = Some 2"
  using select_answering_player_cases [of setup_game_answering_player 0 0]
    select_answering_player_cases [of setup_game_answering_player 0 1]
    select_answering_player_cases
      [of "run [SelectQuestion ''TestTheme'' 100] setup_game_with_themes" 0 2]
  by (simp add: fixture_defs)

subsection \<open>Roster\<close>

lemma invoke_roster_allocated: "roster_allocated g \<Longrightarrow> roster_allocated (invoke c g)"
  by (cases c)
     (auto simp: roster_allocated_def method_defs scan_questions_frame less_Suc_eq
        split: option.splits dest: notin_set_remove1)

lemma run_roster_allocated: "roster_allocated g \<Longrightarrow> roster_allocated (run cs g)"
  by (induction cs arbitrary: g) (simp_all add: invoke_roster_allocated)

lemma fresh_game_roster_allocated: "fresh_game g \<Longrightarrow> roster_allocated g"
  by (simp add: fresh_game_def roster_allocated_def)

text \<open>
  C8. \<open>join n\<close> creates a player object with name \<open>n\<close> and score 0, appends it at the end
  of the roster and returns it; the object is not one of the roster before. \<open>leave\<close> of
  the returned player then returns and the roster is, element for element and in the
  same order, the roster before the \<open>join\<close>. (The roster consists of existing player
  objects: this is \<open>roster_allocated\<close>, which holds in a fresh game and after every call.)
\<close>

theorem join_leave_roundtrip:
  assumes "roster_allocated g"
  shows "players (snd (join n g)) = players g @ [fst (join n g)]
       \<and> player_at (snd (join n g)) (fst (join n g)) = \<lparr>name = n, score = 0\<rparr>
       \<and> fst (join n g) \<notin> set (players g)
       \<and> fst (leave (fst (join n g)) (snd (join n g))) = Inr ()
       \<and> players (snd (leave (fst (join n g)) (snd (join n g)))) = players g"
  using assms by (auto simp: roster_allocated_def join_def leave_def Let_def remove1_append)

theorem join_leave_roundtrip_witness:
  "roster_allocated setup_game_answering_player
   \<and> players setup_game_answering_player = [0, 1, 2]
   \<and> fst (join ''Test Player'' setup_game_answering_player) = 3
   \<and> players (snd (join ''Test Player'' setup_game_answering_player)) = [0, 1, 2, 3]
   \<and> player_at (snd (join ''Test Player'' setup_game_answering_player)) 3
       = \<lparr>name = ''Test Player'', score = 0\<rparr>
   \<and> players (snd (leave 3 (snd (join ''Test Player'' setup_game_answering_player))))
       = [0, 1, 2]"
  using join_leave_roundtrip [of setup_game_answering_player "''Test Player''"]
  by (simp add: roster_allocated_def fixture_defs)

subsection \<open>Disabled questions\<close>

lemma invoke_disabled:
  "disabled (question_at g q) \<Longrightarrow> disabled (question_at (invoke c g) q)"
  by (cases c) (auto simp: method_defs scan_questions_store split: option.splits)

lemma invoke_not_selected:
  assumes "disabled (question_at g q)" and "current_question g \<noteq> Some q"
  shows "current_question (invoke c g) \<noteq> Some q"
proof (cases c)
  case (SelectQuestion theme sc)
  show ?thesis
    using assms scan_questions_current [of theme sc _ g q]
    by (auto simp: SelectQuestion select_question_def split: option.splits if_splits)
qed (use assms in \<open>auto simp: method_defs split: option.splits\<close>)

lemma run_disabled:
  "disabled (question_at g q) \<Longrightarrow> disabled (question_at (run cs g) q)"
  by (induction cs arbitrary: g) (simp_all add: invoke_disabled)

lemma run_not_selected:
  "disabled (question_at g q) \<Longrightarrow> current_question g \<noteq> Some q \<Longrightarrow>
     current_question (run cs g) \<noteq> Some q"
  by (induction cs arbitrary: g) (simp_all add: invoke_disabled invoke_not_selected)

lemma select_question_enabled:
  assumes "fst (select_question theme sc g) = Inr ()"
  shows "\<exists>q. current_question (snd (select_question theme sc g)) = Some q
            \<and> \<not> disabled (question_at g q)"
  using assms
  by (auto simp: select_question_def scan_questions_find split: option.splits if_splits)

text \<open>
  C9. Whatever calls of the methods of \<open>Game\<close> are made, in whatever order, and whether
  they return or raise: a question that is disabled stays disabled; a disabled
  question that is not the current question never becomes the current question
  (\<open>accept_answer\<close> and \<open>skip_question\<close>, the two methods that disable a question, clear
  the current question in the same call); and no \<open>select_question\<close> made later returns
  with the disabled question as the current one.
\<close>

theorem disabled_one_way:
  "(disabled (question_at g q) \<longrightarrow> disabled (question_at (run cs g) q))
   \<and> (disabled (question_at g q) \<and> current_question g \<noteq> Some q \<longrightarrow>
        current_question (run cs g) \<noteq> Some q)
   \<and> (disabled (question_at g q) \<and> fst (select_question theme sc (run cs g)) = Inr () \<longrightarrow>
        current_question (snd (select_question theme sc (run cs g))) \<noteq> Some q)"
proof (intro conjI impI)
  assume "disabled (question_at g q)"
  then show "disabled (question_at (run cs g) q)" by (rule run_disabled)
next
  assume "disabled (question_at g q) \<and> current_question g \<noteq> Some q"
  then show "current_question (run cs g) \<noteq> Some q" by (simp add: run_not_selected)
next
  assume a: "disabled (question_at g q) \<and> fst (select_question theme sc (run cs g)) = Inr ()"
  then have d: "disabled (question_at (run cs g) q)" by (simp add: run_disabled)
  from a obtain q' where
    "current_question (snd (select_question theme sc (run cs g))) = Some q'"
    "\<not> disabled (question_at (run cs g) q')"
    using select_question_enabled [of theme sc "run cs g"] by blast
  with d show "current_question (snd (select_question theme sc (run cs g))) \<noteq> Some q"
    by auto
qed

theorem disabled_one_way_witness:
  "disabled (question_at (snd (skip_question setup_game_answering_player)) 0)
   \<and> current_question (snd (skip_question setup_game_answering_player)) \<noteq> Some 0
   \<and> disabled (question_at
        (run [SelectQuestion ''TestTheme'' 100, SelectAnsweringPlayer 1, DeclineAnswer]
           (snd (skip_question setup_game_answering_player))) 0)
   \<and> current_question
        (run [SelectQuestion ''TestTheme'' 100, SelectAnsweringPlayer 1, DeclineAnswer]
           (snd (skip_question setup_game_answering_player))) \<noteq> Some 0
   \<and> fst (select_question ''TestTheme'' 200
        (run [SelectQuestion ''TestTheme'' 100, SelectAnsweringPlayer 1, DeclineAnswer]
           (snd (skip_question setup_game_answering_player)))) = Inr ()
   \<and> current_question (snd (select_question ''TestTheme'' 200
        (run [SelectQuestion ''TestTheme'' 100, SelectAnsweringPlayer 1, DeclineAnswer]
           (snd (skip_question setup_game_answering_player))))) \<noteq> Some 0"
  using disabled_one_way [of "snd (skip_question setup_game_answering_player)" 0
      "[SelectQuestion ''TestTheme'' 100, SelectAnsweringPlayer 1, DeclineAnswer]"
      "''TestTheme''" 200]
  by (simp add: fixture_defs)

subsection \<open>The answering player and the roster\<close>

lemma map_of_board:
  "map_of (themes_questions g) theme = Some qs \<Longrightarrow> set qs \<subseteq> set (board_questions g)"
  by (force simp: board_questions_def dest!: map_of_SomeD)

lemma select_question_keeps:
  assumes "answerer_in_roster g" and "idle_unanswered g"
  shows "answerer_in_roster (snd (select_question theme sc g))
       \<and> idle_unanswered (snd (select_question theme sc g))"
proof (cases "current_question g = None \<and> (\<exists>qs. map_of (themes_questions g) theme = Some qs \<and> qs \<noteq> [])")
  case False
  then have "snd (select_question theme sc g) = g"
    by (auto simp: select_question_def split: option.splits)
  with assms show ?thesis by simp
next
  case True
  then obtain qs where none: "current_question g = None"
    and qs: "map_of (themes_questions g) theme = Some qs" "qs \<noteq> []"
    by blast
  let ?g' = "snd (scan_questions theme sc qs g)"
  have sel: "snd (select_question theme sc g) = ?g'"
    using none qs by (simp add: select_question_def)
  have sub: "set qs \<subseteq> set (board_questions g)"
    using qs(1) by (rule map_of_board)
  have st: "question_at ?g' = question_at g"
    by (rule scan_questions_store)
  have fr: "players ?g' = players g" "themes_questions ?g' = themes_questions g"
    by (rule scan_questions_frame)+
  have cur: "\<And>q. current_question ?g' = Some q \<Longrightarrow> q \<in> set qs \<and> \<not> disabled (question_at g q)"
    using scan_questions_current [of theme sc qs g] none by auto
  have a: "answerer_in_roster ?g'"
    using cur sub assms(2) none
    by (auto simp: answerer_in_roster_def st fr idle_unanswered_def split: option.splits)
  have b: "idle_unanswered ?g'"
    using assms(2) none by (auto simp: idle_unanswered_def st fr board_questions_def)
  from a b sel show ?thesis by simp
qed

lemma handle_keeps:
  assumes "answerer_in_roster g" and "idle_unanswered g" and "\<not> leaves_answerer c g"
  shows "answerer_in_roster (handle c g) \<and> idle_unanswered (handle c g)"
proof (cases "joined_player_only c g")
  case False
  with assms show ?thesis by (simp add: handle_def)
next
  case True
  show ?thesis
  proof (cases c)
    case (SelectQuestion theme sc)
    with assms select_question_keeps [of g theme sc] show ?thesis
      by (simp add: handle_def joined_player_only_def)
  next
    case (Leave player)
    with assms True show ?thesis
      by (auto simp: handle_def leave_def answerer_in_roster_def idle_unanswered_def
          leaves_answerer_def board_questions_def joined_player_only_def split: option.splits)
  next
    case (Join n)
    with assms show ?thesis
      by (auto simp: handle_def join_def Let_def answerer_in_roster_def idle_unanswered_def
          board_questions_def joined_player_only_def split: option.splits)
  next
    case (SelectAnsweringPlayer player)
    with assms True show ?thesis
      by (auto simp: handle_def select_answering_player_def answerer_in_roster_def
          idle_unanswered_def board_questions_def joined_player_only_def split: option.splits)
  next
    case AcceptAnswer
    with assms show ?thesis
      by (auto simp: handle_def accept_answer_def Question_accept_answer_def Let_def
          answerer_in_roster_def idle_unanswered_def board_questions_def
          joined_player_only_def split: option.splits)
  next
    case DeclineAnswer
    with assms show ?thesis
      by (auto simp: handle_def decline_answer_def Question_decline_answer_def Let_def
          answerer_in_roster_def idle_unanswered_def board_questions_def
          joined_player_only_def split: option.splits)
  next
    case SkipQuestion
    with assms show ?thesis
      by (auto simp: handle_def skip_question_def Let_def answerer_in_roster_def
          idle_unanswered_def board_questions_def joined_player_only_def split: option.splits)
  qed
qed

lemma serve_keeps:
  "answerer_in_roster g \<Longrightarrow> idle_unanswered g \<Longrightarrow> answerer_stays cs g \<Longrightarrow>
     answerer_in_roster (serve cs g)"
proof (induction cs arbitrary: g)
  case Nil
  then show ?case by simp
next
  case (Cons c cs)
  from Cons.prems have "answerer_in_roster (handle c g) \<and> idle_unanswered (handle c g)"
    by (intro handle_keeps) simp_all
  with Cons.prems Cons.IH [of "handle c g"] show ?case by simp
qed

text \<open>
  C1, as stated, fails. In the fresh game of the tests a player joins, the first
  question is selected, the player (who is in the roster) is selected to answer, and
  the player leaves: every call goes through the transport layer's check and returns,
  and the state it ends in has the question still current, with the player that left
  as its answering player, and an empty roster. \<open>leave\<close> removes the player from the
  roster and nothing else.
\<close>

theorem answerer_leaves_counterexample:
  "fresh_game setup_game_with_themes
   \<and> players (serve [Join ''Test Player #1'', SelectQuestion ''TestTheme'' 100,
                SelectAnsweringPlayer 0, Leave 0] setup_game_with_themes) = []
   \<and> current_question (serve [Join ''Test Player #1'', SelectQuestion ''TestTheme'' 100,
                SelectAnsweringPlayer 0, Leave 0] setup_game_with_themes) = Some 0
   \<and> answering_player (question_at (serve [Join ''Test Player #1'',
                SelectQuestion ''TestTheme'' 100, SelectAnsweringPlayer 0, Leave 0]
                setup_game_with_themes) 0) = Some 0
   \<and> \<not> answerer_in_roster
        (serve [Join ''Test Player #1'', SelectQuestion ''TestTheme'' 100,
                SelectAnsweringPlayer 0, Leave 0] setup_game_with_themes)"
  by (simp add: fresh_game_def answerer_in_roster_def board_questions_def handle_def
      joined_player_only_def fixture_defs)

text \<open>
  What \<open>leave\<close> does to the state: the first occurrence of the player is removed from
  the roster (a player that is not in it leaves the roster alone, the call raises), and
  the board, the current question, every question object and every player object are
  as before. Through the transport layer it is the same call.
\<close>

lemma leave_frame:
  "players (snd (leave player h)) = remove1 player (players h)"
  "question_at (snd (leave player h)) = question_at h"
  "current_question (snd (leave player h)) = current_question h"
  "player_at (snd (leave player h)) = player_at h"
  "themes_questions (snd (leave player h)) = themes_questions h"
  "next_paddr (snd (leave player h)) = next_paddr h"
  by (simp_all add: leave_def remove1_idem)

lemma handle_leave: "handle (Leave player) h = snd (leave player h)"
  by (simp add: handle_def joined_player_only_def leave_def)

text \<open>
  C1, amended. In every state reached from a fresh game by calls of \<open>join\<close>, \<open>leave\<close>,
  \<open>select_question\<close>, \<open>select_answering_player\<close>, \<open>accept_answer\<close>, \<open>decline_answer\<close> and
  \<open>skip_question\<close> made through the transport layer (which selects and removes only
  players of the roster), none of which is \<open>leave\<close> of the player who is the current
  question's answering player at that moment: if there is a current question, its
  answering player is \<^verbatim>\<open>None\<close> or a player of the roster. And \<open>leave\<close>, in every state
  \<open>h\<close> and for every player, called directly or through the transport layer, only
  removes the player from the roster: the current question is the same, every question
  object (so the answering player of the current question too) and every player object
  is unchanged, and so is the board.
\<close>

theorem answerer_in_roster_unless_left:
  "(fresh_game g \<and> answerer_stays cs g \<longrightarrow> answerer_in_roster (serve cs g))
   \<and> handle (Leave player) h = snd (leave player h)
   \<and> players (snd (leave player h)) = remove1 player (players h)
   \<and> current_question (snd (leave player h)) = current_question h
   \<and> question_at (snd (leave player h)) = question_at h
   \<and> answering_player (question_at (snd (leave player h)) q)
       = answering_player (question_at h q)
   \<and> player_at (snd (leave player h)) = player_at h
   \<and> themes_questions (snd (leave player h)) = themes_questions h"
proof -
  have "answerer_in_roster (serve cs g)" if "fresh_game g" and "answerer_stays cs g"
  proof -
    have "answerer_in_roster g" "idle_unanswered g"
      using that(1)
      by (simp_all add: fresh_game_def answerer_in_roster_def idle_unanswered_def)
    then show ?thesis using that(2) by (rule serve_keeps)
  qed
  then show ?thesis by (simp add: leave_frame handle_leave)
qed

theorem answerer_in_roster_unless_left_witness:
  "fresh_game setup_game_with_themes
   \<and> answerer_stays [Join ''Test Player #1'', Join ''Test Player #2'',
        SelectQuestion ''TestTheme'' 100, SelectAnsweringPlayer 0, Leave 1,
        DeclineAnswer, SelectAnsweringPlayer 1, SelectAnsweringPlayer 0]
        setup_game_with_themes
   \<and> answerer_in_roster
        (serve [Join ''Test Player #1'', Join ''Test Player #2'',
           SelectQuestion ''TestTheme'' 100, SelectAnsweringPlayer 0, Leave 1,
           DeclineAnswer, SelectAnsweringPlayer 1, SelectAnsweringPlayer 0]
           setup_game_with_themes)
   \<and> answering_player (question_at
        (serve [Join ''Test Player #1'', Join ''Test Player #2'',
           SelectQuestion ''TestTheme'' 100, SelectAnsweringPlayer 0, Leave 1,
           DeclineAnswer, SelectAnsweringPlayer 1, SelectAnsweringPlayer 0]
           setup_game_with_themes) 0) = Some 0
   \<and> players setup_game_answering_player = [0, 1, 2]
   \<and> current_question setup_game_answering_player = Some 0
   \<and> answering_player (question_at setup_game_answering_player 0) = Some 0
   \<and> players (snd (leave 0 setup_game_answering_player)) = [1, 2]
   \<and> players (handle (Leave 0) setup_game_answering_player) = [1, 2]
   \<and> current_question (snd (leave 0 setup_game_answering_player)) = Some 0
   \<and> answering_player (question_at (snd (leave 0 setup_game_answering_player)) 0) = Some 0"
  using answerer_in_roster_unless_left [of setup_game_with_themes
     "[Join ''Test Player #1'', Join ''Test Player #2'',
        SelectQuestion ''TestTheme'' 100, SelectAnsweringPlayer 0, Leave 1,
        DeclineAnswer, SelectAnsweringPlayer 1, SelectAnsweringPlayer 0]"
     0 setup_game_answering_player 0]
  by (simp add: fresh_game_def leaves_answerer_def board_questions_def handle_def
      joined_player_only_def fixture_defs)

end
